theory Spec2Isabelle
  imports Main "HOL-Library.Word" "HOL-Library.AList"
begin

section \<open>Sapora server: wire codec, connection registry, chat router, audio mixer, file server\<close>

text \<open>
  A shallow embedding of the server side of the Sapora LAN collaboration suite
  (\<^verbatim>\<open>shared/helpers.py\<close>, \<^verbatim>\<open>server/connection_manager.py\<close>,
  \<^verbatim>\<open>server/tcp_handler.py\<close>, \<^verbatim>\<open>server/udp_audio_server.py\<close>,
  \<^verbatim>\<open>server/file_server.py\<close>).

  Conventions. Python \<^verbatim>\<open>bytes\<close> are lists of 8-bit words, Python \<^verbatim>\<open>int\<close> is
  \<^typ>\<open>int\<close>, a \<^verbatim>\<open>dict\<close> is an association list in insertion order (assignment to an
  existing key keeps its position, as in Python), a socket object is an opaque identifier,
  an exception is the \<open>Inl\<close> branch of a sum. Socket sends are recorded as events; whether a
  send raises is a parameter of the model, and so is the result of every library call that
  is not computed here (JSON serialisation, Unicode case mapping, MD5, opening a file).
\<close>

subsection \<open>Constants (\<^verbatim>\<open>shared/constants.py\<close>, \<^verbatim>\<open>shared/protocol.py\<close>)\<close>

type_synonym byte = "8 word"
type_synonym bytes = "byte list"

definition PROTOCOL_VERSION :: int where "PROTOCOL_VERSION = 1"
definition HEADER_SIZE :: nat where "HEADER_SIZE = 10"
definition MAX_MESSAGE_SIZE :: nat where "MAX_MESSAGE_SIZE = 1048576"
definition FILE_CHUNK_SIZE :: nat where "FILE_CHUNK_SIZE = 32768"
definition MAX_FILE_SIZE :: int where "MAX_FILE_SIZE = 104857600"

definition CMD_USER_LIST :: int where "CMD_USER_LIST = 0x03"
definition MSG_CHAT :: int where "MSG_CHAT = 0x10"
definition FILE_METADATA :: int where "FILE_METADATA = 0x20"
definition FILE_CHUNK :: int where "FILE_CHUNK = 0x21"
definition FILE_ACK_SUCCESS :: int where "FILE_ACK_SUCCESS = 0x24"
definition FILE_ACK_FAILURE :: int where "FILE_ACK_FAILURE = 0x25"

subsection \<open>Wire codec (\<^verbatim>\<open>shared/helpers.py\<close>)\<close>

datatype error =
    ValueError string
  | StructError
  | ConnectionAbortedError
  | SocketTimeout
  | IOError string
  | OSError string

text \<open>Big-endian unsigned integers of \<open>k\<close> bytes, as \<^verbatim>\<open>struct\<close> lays them out.\<close>

fun be_encode :: "nat \<Rightarrow> int \<Rightarrow> bytes" where
  "be_encode 0 n = []"
| "be_encode (Suc k) n = be_encode k (n div 256) @ [word_of_int n]"

definition be_decode :: "bytes \<Rightarrow> int" where
  "be_decode bs = foldl (\<lambda>acc b. acc * 256 + uint b) 0 bs"

text \<open>
  \<^verbatim>\<open>struct.pack(fmt, v)\<close> for one unsigned field of \<open>k\<close> bytes: a value outside
  \<open>0 .. 256^k - 1\<close> raises \<^verbatim>\<open>struct.error\<close>.
\<close>

definition pack_uint :: "nat \<Rightarrow> int \<Rightarrow> error + bytes" where
  "pack_uint k v = (if 0 \<le> v \<and> v < 256 ^ k then Inr (be_encode k v) else Inl StructError)"

text \<open>\<^verbatim>\<open>struct.pack('!BBIHH', version, msg_type, payload_length, sequence_number, reserved)\<close>.\<close>

definition struct_pack_BBIHH :: "int \<Rightarrow> int \<Rightarrow> int \<Rightarrow> int \<Rightarrow> int \<Rightarrow> error + bytes" where
  "struct_pack_BBIHH v t l s r =
     (case pack_uint 1 v of Inl e \<Rightarrow> Inl e | Inr bv \<Rightarrow>
      case pack_uint 1 t of Inl e \<Rightarrow> Inl e | Inr bt \<Rightarrow>
      case pack_uint 4 l of Inl e \<Rightarrow> Inl e | Inr bl \<Rightarrow>
      case pack_uint 2 s of Inl e \<Rightarrow> Inl e | Inr bs \<Rightarrow>
      case pack_uint 2 r of Inl e \<Rightarrow> Inl e | Inr br \<Rightarrow>
      Inr (bv @ bt @ bl @ bs @ br))"

text \<open>\<^verbatim>\<open>struct.unpack('!BBIHH', header)\<close>: the buffer must be exactly 10 bytes long.\<close>

definition struct_unpack_BBIHH :: "bytes \<Rightarrow> error + (int \<times> int \<times> int \<times> int \<times> int)" where
  "struct_unpack_BBIHH h =
     (if length h \<noteq> 10 then Inl StructError
      else Inr (be_decode (take 1 h),
                be_decode (take 1 (drop 1 h)),
                be_decode (take 4 (drop 2 h)),
                be_decode (take 2 (drop 6 h)),
                be_decode (take 2 (drop 8 h))))"

text \<open>
  \<^verbatim>\<open>pack_message(msg_type, payload)\<close> for a \<^verbatim>\<open>bytes\<close> payload. The size check comes
  first and raises \<^verbatim>\<open>ValueError\<close>; the sequence number and the reserved field are 0.
\<close>

definition pack_message :: "int \<Rightarrow> bytes \<Rightarrow> error + bytes" where
  "pack_message msg_type payload =
     (let payload_length = length payload in
      if payload_length > MAX_MESSAGE_SIZE then Inl (ValueError ''Payload size exceeds maximum'')
      else
        let sequence_number = 0; reserved = 0 in
        case struct_pack_BBIHH PROTOCOL_VERSION msg_type (int payload_length) sequence_number reserved of
          Inl e \<Rightarrow> Inl e
        | Inr header \<Rightarrow> Inr (header @ payload))"

text \<open>
  \<^verbatim>\<open>unpack_message(data)\<close>: returns
  \<open>(version, msg_type, payload_length, sequence_number, payload)\<close>.
\<close>

definition unpack_message :: "bytes \<Rightarrow> error + (int \<times> int \<times> int \<times> int \<times> bytes)" where
  "unpack_message data =
     (if length data < HEADER_SIZE then Inl (ValueError ''Data too short'')
      else
        let header = take HEADER_SIZE data; payload = drop HEADER_SIZE data in
        case struct_unpack_BBIHH header of
          Inl e \<Rightarrow> Inl (ValueError ''Failed to unpack header'')
        | Inr (version, msg_type, payload_length, sequence_number, reserved) \<Rightarrow>
            if int (length payload) \<noteq> payload_length
              then Inl (ValueError ''Payload length mismatch'')
            else if version \<noteq> PROTOCOL_VERSION
              then Inl (ValueError ''Protocol version mismatch'')
            else Inr (version, msg_type, payload_length, sequence_number, payload))"

subsection \<open>Connection registry (\<^verbatim>\<open>server/connection_manager.py\<close>)\<close>

type_synonym sock = nat
type_synonym address = "string \<times> int"
type_synonym timestamp = int

text \<open>
  The value stored per TCP client in \<^verbatim>\<open>control_clients\<close>. The fields \<^verbatim>\<open>'id'\<close> (a display
  string built from the address and the clock) and \<^verbatim>\<open>'socket'\<close> (the key again) are never
  read by the functions below and are left out. Clock readings (\<^verbatim>\<open>time.time()\<close>) are
  passed in as \<open>now\<close>.
\<close>

record client_info =
  addr :: address
  username :: string
  last_seen :: timestamp
  room :: string

record stream_info =
  video :: "address option"
  audio :: "address option"
  stream_last_seen :: timestamp

text \<open>
  \<^verbatim>\<open>ConnectionManager\<close>: the two dictionaries, and whether \<^verbatim>\<open>server_ref\<close> has been set
  (the server object itself, with its rooms, is the record \<open>server\<close> below).
\<close>

record manager =
  control_clients :: "(sock \<times> client_info) list"
  stream_clients :: "(string \<times> stream_info) list"
  server_ref :: bool

text \<open>
  Effects other than the change of the registry. A user-list broadcast is recorded as one
  event at the place where the source calls (or starts a thread for) \<^verbatim>\<open>broadcast_user_list\<close>
  or \<^verbatim>\<open>broadcast_room_user_list\<close>; the packets it then sends are not expanded.
\<close>

datatype event =
    CloseSocket sock
  | BroadcastUserList
  | BroadcastRoomUserList string

text \<open>Python truthiness of an optional string argument (\<^verbatim>\<open>None\<close> and \<^verbatim>\<open>''\<close> are false).\<close>

fun truthy :: "string option \<Rightarrow> bool" where
  "truthy None = False"
| "truthy (Some s) = (s \<noteq> [])"

definition add_client :: "manager \<Rightarrow> sock \<Rightarrow> address \<Rightarrow> timestamp \<Rightarrow> manager \<times> event list" where
  "add_client m client_socket address now =
     (let info = \<lparr>addr = address, username = ''Unknown'', last_seen = now, room = ''default''\<rparr>;
          current_room = ''default''
      in (m\<lparr>control_clients := AList.update client_socket info (control_clients m)\<rparr>,
          BroadcastUserList # (if server_ref m then [BroadcastRoomUserList current_room] else [])))"

text \<open>\<^verbatim>\<open>remove_client(client_socket)\<close> returns \<open>(username, address)\<close>.\<close>

definition remove_client ::
  "manager \<Rightarrow> sock \<Rightarrow> manager \<times> (string \<times> address) \<times> event list" where
  "remove_client m client_socket =
     (let (uname, address, room_id, cc, closed) =
            (case map_of (control_clients m) client_socket of
               Some info \<Rightarrow>
                 (username info, addr info, room info,
                  AList.delete client_socket (control_clients m), [CloseSocket client_socket])
             | None \<Rightarrow>
                 (''Unknown'', (''0.0.0.0'', 0), ''default'', control_clients m, []));
          sc = (if map_of (stream_clients m) (fst address) \<noteq> None
                then AList.delete (fst address) (stream_clients m)
                else stream_clients m);
          broadcasts =
            (if uname \<noteq> ''Unknown''
             then BroadcastUserList #
                  (if server_ref m \<and> room_id \<noteq> [] then [BroadcastRoomUserList room_id] else [])
             else [])
      in (m\<lparr>control_clients := cc, stream_clients := sc\<rparr>, (uname, address),
          closed @ broadcasts))"

text \<open>\<^verbatim>\<open>update_client_status(client_socket, username=None, room=None)\<close> returns a bool.\<close>

definition update_client_status ::
  "manager \<Rightarrow> sock \<Rightarrow> string option \<Rightarrow> string option \<Rightarrow> timestamp \<Rightarrow>
     manager \<times> bool \<times> event list" where
  "update_client_status m client_socket uname rm now =
     (case map_of (control_clients m) client_socket of
        None \<Rightarrow> (m, False, [])
      | Some info0 \<Rightarrow>
          let info1 = info0\<lparr>last_seen := now\<rparr>;
              promote = (truthy uname \<and> username info1 = ''Unknown'');
              info2 = (if promote then info1\<lparr>username := the uname\<rparr> else info1);
              should_broadcast_global = promote;
              info3 = (if truthy rm then info2\<lparr>room := the rm\<rparr> else info2);
              room_to_broadcast = room info3
          in (m\<lparr>control_clients := AList.update client_socket info3 (control_clients m)\<rparr>,
              True,
              (if should_broadcast_global then [BroadcastUserList] else []) @
              (if server_ref m \<and> room_to_broadcast \<noteq> []
               then [BroadcastRoomUserList room_to_broadcast] else [])))"

text \<open>
  \<^verbatim>\<open>update_client_status_by_ip(ip_address, username=None, room=None)\<close>: the first entry
  (in dictionary order) whose address has that IP is updated, and the loop returns.
\<close>

definition touch_by_ip :: "client_info \<Rightarrow> string option \<Rightarrow> string option \<Rightarrow> timestamp \<Rightarrow> client_info" where
  "touch_by_ip info0 uname rm now =
     (let info1 = info0\<lparr>last_seen := now\<rparr>;
          info2 = (if truthy uname \<and> username info1 = ''Unknown''
                   then info1\<lparr>username := the uname\<rparr> else info1)
      in if truthy rm then
           (let current_room = room info2 in
            if the rm \<noteq> ''default'' \<or> current_room = [] \<or> current_room = ''default''
            then info2\<lparr>room := the rm\<rparr> else info2)
         else info2)"

fun update_by_ip_loop ::
  "(sock \<times> client_info) list \<Rightarrow> string \<Rightarrow> string option \<Rightarrow> string option \<Rightarrow> timestamp \<Rightarrow>
     (sock \<times> client_info) list \<times> bool" where
  "update_by_ip_loop [] ip_address uname rm now = ([], False)"
| "update_by_ip_loop ((s, info) # rest) ip_address uname rm now =
     (if fst (addr info) = ip_address
      then ((s, touch_by_ip info uname rm now) # rest, True)
      else (let (rest', found) = update_by_ip_loop rest ip_address uname rm now
            in ((s, info) # rest', found)))"

definition update_client_status_by_ip ::
  "manager \<Rightarrow> string \<Rightarrow> string option \<Rightarrow> string option \<Rightarrow> timestamp \<Rightarrow> manager \<times> bool" where
  "update_client_status_by_ip m ip_address uname rm now =
     (let (cc, found) = update_by_ip_loop (control_clients m) ip_address uname rm now
      in (m\<lparr>control_clients := cc\<rparr>, found))"

definition get_client_by_socket :: "manager \<Rightarrow> sock \<Rightarrow> client_info option" where
  "get_client_by_socket m client_socket = map_of (control_clients m) client_socket"

text \<open>\<^verbatim>\<open>get_client_username_by_ip(ip_address)\<close>: the loop over \<^verbatim>\<open>control_clients.values()\<close>.\<close>

fun username_by_ip_loop :: "client_info list \<Rightarrow> string \<Rightarrow> string" where
  "username_by_ip_loop [] ip_address = ip_address"
| "username_by_ip_loop (info # rest) ip_address =
     (if fst (addr info) = ip_address \<and> username info \<noteq> ''Unknown''
      then username info
      else username_by_ip_loop rest ip_address)"

definition get_client_username_by_ip :: "manager \<Rightarrow> string \<Rightarrow> string" where
  "get_client_username_by_ip m ip_address =
     username_by_ip_loop (map snd (control_clients m)) ip_address"

text \<open>\<^verbatim>\<open>register_stream(stream_type, address)\<close> and \<^verbatim>\<open>unregister_stream(stream_type, key)\<close>.\<close>

definition set_stream :: "string \<Rightarrow> address option \<Rightarrow> timestamp \<Rightarrow> stream_info \<Rightarrow> stream_info" where
  "set_stream stream_type a now info =
     (if stream_type = ''video'' then info\<lparr>video := a\<rparr>
      else if stream_type = ''audio'' then info\<lparr>audio := a\<rparr>
      else info)\<lparr>stream_last_seen := now\<rparr>"

definition register_stream :: "manager \<Rightarrow> string \<Rightarrow> address \<Rightarrow> timestamp \<Rightarrow> manager" where
  "register_stream m stream_type address now =
     (let ip_addr = fst address;
          sc = (if map_of (stream_clients m) ip_addr = None
                then AList.update ip_addr
                       \<lparr>video = None, audio = None, stream_last_seen = now\<rparr> (stream_clients m)
                else stream_clients m)
      in m\<lparr>stream_clients :=
             AList.map_entry ip_addr (set_stream stream_type (Some address) now) sc\<rparr>)"

definition unregister_stream :: "manager \<Rightarrow> string \<Rightarrow> address \<Rightarrow> timestamp \<Rightarrow> manager" where
  "unregister_stream m stream_type key now =
     (let ip = fst key in
      if ip = [] then m
      else m\<lparr>stream_clients :=
               AList.map_entry ip (set_stream stream_type None now) (stream_clients m)\<rparr>)"




definition set_client_room :: "manager \<Rightarrow> sock \<Rightarrow> string \<Rightarrow> manager \<times> event list" where
  "set_client_room m client_socket rm =
     (case map_of (control_clients m) client_socket of
        Some info \<Rightarrow>
          (m\<lparr>control_clients := AList.update client_socket (info\<lparr>room := rm\<rparr>) (control_clients m)\<rparr>,
           [BroadcastUserList])
      | None \<Rightarrow> (m, []))"


subsection \<open>Strings\<close>

text \<open>
  A Python \<^verbatim>\<open>str\<close> is represented by its UTF-8 encoding, one \<^typ>\<open>char\<close> per byte: ASCII
  characters are themselves, concatenation is concatenation, equal strings are equal.

  On a string made of ASCII characters only, \<^verbatim>\<open>str.lower()\<close> maps \<open>A..Z\<close> to \<open>a..z\<close> and
  leaves every other character alone, and \<^verbatim>\<open>str.strip()\<close> removes from both ends the ASCII
  characters for which \<^verbatim>\<open>str.isspace()\<close> holds: \<open>0x09..0x0D\<close>, \<open>0x1C..0x1F\<close> and the
  space. These are \<open>ascii_lower\<close> and \<open>ascii_strip\<close>. On a string with a character outside
  ASCII the two methods follow the Unicode tables, which are not part of this theory: there
  the result is a parameter (see \<open>lower\<close> and \<open>strip\<close> below). \<open>str_nat\<close> is \<^verbatim>\<open>str(n)\<close> for
  a non-negative integer.
\<close>

definition is_ascii :: "string \<Rightarrow> bool" where
  "is_ascii s = list_all (\<lambda>c. \<not> digit7 c) s"

definition ascii_lower_char :: "char \<Rightarrow> char" where
  "ascii_lower_char c =
     (case map_of (zip ''ABCDEFGHIJKLMNOPQRSTUVWXYZ'' ''abcdefghijklmnopqrstuvwxyz'') c of
        Some d \<Rightarrow> d
      | None \<Rightarrow> c)"

definition ascii_lower :: "string \<Rightarrow> string" where
  "ascii_lower s = map ascii_lower_char s"

definition ascii_space :: "char \<Rightarrow> bool" where
  "ascii_space c =
     (c \<in> set [CHR 0x09, CHR 0x0A, CHR 0x0B, CHR 0x0C, CHR 0x0D,
               CHR 0x1C, CHR 0x1D, CHR 0x1E, CHR 0x1F, CHR '' ''])"

definition ascii_strip :: "string \<Rightarrow> string" where
  "ascii_strip s = rev (dropWhile ascii_space (rev (dropWhile ascii_space s)))"

definition digit_char :: "nat \<Rightarrow> char" where
  "digit_char d = ''0123456789'' ! (d mod 10)"

fun str_nat :: "nat \<Rightarrow> string" where
  "str_nat n =
     (if n < 10 then [digit_char n]
      else str_nat (n div 10) @ [digit_char (n mod 10)])"

declare str_nat.simps [simp del]

text \<open>\<^verbatim>\<open>sep.join(xs)\<close>.\<close>

fun join :: "string \<Rightarrow> string list \<Rightarrow> string" where
  "join sep [] = []"
| "join sep [x] = x"
| "join sep (x # y # ys) = x @ sep @ join sep (y # ys)"

subsection \<open>Rooms and the TCP control handler (\<^verbatim>\<open>server/server_main.py\<close>, \<^verbatim>\<open>server/tcp_handler.py\<close>)\<close>

text \<open>
  A room of \<^verbatim>\<open>SaporaServer.rooms\<close>: the list \<^verbatim>\<open>'clients'\<close> and the dictionary
  \<^verbatim>\<open>'participants'\<close> from username to socket (\<^verbatim>\<open>'metadata'\<close> is never read).
\<close>

record room_state =
  clients :: "sock list"
  participants :: "(string \<times> sock) list"

record server =
  rooms :: "(string \<times> room_state) list"
  client_rooms :: "(sock \<times> string) list"

text \<open>The fields of one \<^verbatim>\<open>TCPHandler\<close>; the username and the meeting id are strings.\<close>

record handler =
  self_sock :: sock
  self_address :: address
  self_username :: string
  self_meeting_id :: string

text \<open>
  A REGISTER payload after \<^verbatim>\<open>json.loads\<close>: the two keys the handler reads, each present
  (with a string as value) or absent. A payload that does not parse is \<open>None\<close>.
\<close>

record register_data =
  reg_username :: "string option"
  reg_meeting_id :: "string option"

definition handle_register ::
  "manager \<Rightarrow> server option \<Rightarrow> handler \<Rightarrow> register_data option \<Rightarrow> timestamp \<Rightarrow>
     manager \<times> server option \<times> handler \<times> event list" where
  "handle_register m srv h payload now =
     (case payload of
        None \<Rightarrow> (m, srv, h, [])
      | Some data \<Rightarrow>
          let uname = (case reg_username data of
                         Some u \<Rightarrow> u
                       | None \<Rightarrow> ''User-'' @ str_nat (nat (snd (self_address h))));
              mid = (case reg_meeting_id data of Some r \<Rightarrow> r | None \<Rightarrow> ''default'');
              h' = h\<lparr>self_username := uname, self_meeting_id := mid\<rparr>;
              (m1, found, ev1) = update_client_status m (self_sock h) (Some uname) None now;
              (m2, ev2) = set_client_room m1 (self_sock h) mid
          in case srv of
               None \<Rightarrow> (m2, None, h', ev1 @ ev2)
             | Some s \<Rightarrow>
                 let room0 = (case map_of (rooms s) mid of
                                Some r \<Rightarrow> r
                              | None \<Rightarrow> \<lparr>clients = [], participants = []\<rparr>);
                     room1 = (if self_sock h \<in> set (clients room0) then room0
                              else room0\<lparr>clients := clients room0 @ [self_sock h]\<rparr>);
                     room2 = room1\<lparr>participants :=
                                     AList.update uname (self_sock h) (participants room1)\<rparr>;
                     s' = s\<lparr>rooms := AList.update mid room2 (rooms s),
                            client_rooms := AList.update (self_sock h) mid (client_rooms s)\<rparr>
                 in (m2, Some s', h', ev1 @ ev2 @ [BroadcastRoomUserList mid]))"

text \<open>
  JSON values as \<^verbatim>\<open>json.loads\<close> returns them: \<^verbatim>\<open>None\<close>, \<^verbatim>\<open>bool\<close>, \<^verbatim>\<open>int\<close>, \<^verbatim>\<open>float\<close>,
  \<^verbatim>\<open>str\<close>, \<^verbatim>\<open>list\<close> and \<^verbatim>\<open>dict\<close> (string keys, distinct, in insertion order). A float is
  \<open>Finite s m e\<close> (sign \<open>s\<close>, mantissa \<open>m\<close>, binary exponent \<open>e\<close>), an infinity or a NaN.
\<close>

datatype pyfloat = Finite bool nat int | Infinity bool | NaN

datatype json =
    JNull
  | JBool bool
  | JInt int
  | JFloat pyfloat
  | JStr string
  | JArr "json list"
  | JObj "(string \<times> json) list"

text \<open>Python truthiness of such a value (\<^verbatim>\<open>bool(v)\<close>).\<close>

definition json_truthy :: "json \<Rightarrow> bool" where
  "json_truthy v =
     (case v of
        JNull \<Rightarrow> False
      | JBool b \<Rightarrow> b
      | JInt i \<Rightarrow> i \<noteq> 0
      | JFloat f \<Rightarrow> (case f of Finite s m e \<Rightarrow> m \<noteq> 0 | Infinity s \<Rightarrow> True | NaN \<Rightarrow> True)
      | JStr s \<Rightarrow> s \<noteq> []
      | JArr xs \<Rightarrow> xs \<noteq> []
      | JObj kvs \<Rightarrow> kvs \<noteq> [])"

text \<open>A clock reading (\<^verbatim>\<open>time.time()\<close>) as the float it is.\<close>

definition clock_float :: "timestamp \<Rightarrow> pyfloat" where
  "clock_float t = Finite (t < 0) (nat \<bar>t\<bar>) 0"

text \<open>
  The library functions the chat handler calls and this theory does not compute:
  \<open>json_dumps v\<close> is \<^verbatim>\<open>json.dumps(v).encode('utf-8')\<close>; \<open>str_lower s\<close> and \<open>str_strip s\<close> are
  \<^verbatim>\<open>s.lower()\<close> and \<^verbatim>\<open>s.strip()\<close> for a string \<open>s\<close> with a character outside ASCII;
  \<open>str_format v\<close> is the text an f-string puts for a value \<open>v\<close> that is not a string
  (\<^verbatim>\<open>None\<close> for \<^verbatim>\<open>null\<close>, and so on).
\<close>

record builtins =
  json_dumps :: "json \<Rightarrow> bytes"
  str_lower :: "string \<Rightarrow> string"
  str_strip :: "string \<Rightarrow> string"
  str_format :: "json \<Rightarrow> string"

text \<open>\<^verbatim>\<open>s.lower()\<close> and \<^verbatim>\<open>s.strip()\<close>.\<close>

definition lower :: "builtins \<Rightarrow> string \<Rightarrow> string" where
  "lower py s = (if is_ascii s then ascii_lower s else str_lower py s)"

definition strip :: "builtins \<Rightarrow> string \<Rightarrow> string" where
  "strip py s = (if is_ascii s then ascii_strip s else str_strip py s)"

text \<open>
  The payload of a CHAT message as \<^verbatim>\<open>_handle_chat\<close> sees it: \<open>Json v\<close> when \<^verbatim>\<open>json.loads\<close>
  returns \<open>v\<close>, \<open>Legacy raw\<close> when it raises \<^verbatim>\<open>JSONDecodeError\<close> on the payload bytes \<open>raw\<close>,
  \<open>LoadsError\<close> when it raises anything else (\<^verbatim>\<open>RecursionError\<close> on deep nesting).
\<close>

datatype chat_payload = Legacy bytes | Json json | LoadsError

text \<open>A message the server composes itself (sender \<^verbatim>\<open>'SYSTEM'\<close>), and the dictionary it is.\<close>

record system_msg =
  sm_sender :: string
  sm_target :: string
  sm_text :: string
  sm_timestamp :: timestamp
  sm_meeting_id :: string
  sm_type :: string

definition system_json :: "system_msg \<Rightarrow> json" where
  "system_json c =
     JObj [(''sender'', JStr (sm_sender c)),
           (''target'', JStr (sm_target c)),
           (''text'', JStr (sm_text c)),
           (''timestamp'', JFloat (clock_float (sm_timestamp c))),
           (''meeting_id'', JStr (sm_meeting_id c)),
           (''type'', JStr (sm_type c))]"

text \<open>
  What is handed to \<^verbatim>\<open>sendall\<close> by the chat handler: the relayed chat packet (the bytes
  \<^verbatim>\<open>pack_message\<close> returned) or the packet of a system message \<open>c\<close>, which is
  \<^verbatim>\<open>pack_message(MSG_CHAT, json.dumps(c).encode('utf-8'))\<close>.
\<close>

datatype msg = Relay bytes | System system_msg

text \<open>
  Packing and sending a system message to socket \<open>sk\<close>. When \<^verbatim>\<open>pack_message\<close> raises (the
  encoded message is longer than 1 MiB) the exception leaves through the outer \<^verbatim>\<open>except\<close>
  of \<^verbatim>\<open>_handle_chat\<close>; at each of the three places where a system message is sent, nothing
  is sent after it. A failure of this \<^verbatim>\<open>sendall\<close> itself is swallowed on the spot; the call
  is listed whether or not it fails.
\<close>

definition send_system :: "builtins \<Rightarrow> sock \<Rightarrow> system_msg \<Rightarrow> (sock \<times> msg) list" where
  "send_system py sk c =
     (case pack_message MSG_CHAT (json_dumps py (system_json c)) of
        Inl e \<Rightarrow> []
      | Inr packet \<Rightarrow> [(sk, System c)])"

text \<open>
  The first characters of the two summary texts, as the source file has them: the code
  points U+201A U+00FA U+00D6 and U+201A U+00F9 U+00E5, each followed by a space.
\<close>

definition check_mark :: string where
  "check_mark = [CHR 0xE2, CHR 0x80, CHR 0x9A, CHR 0xC3, CHR 0xBA, CHR 0xC3, CHR 0x96, CHR '' '']"

definition cross_mark :: string where
  "cross_mark = [CHR 0xE2, CHR 0x80, CHR 0x9A, CHR 0xC3, CHR 0xB9, CHR 0xC3, CHR 0xA5, CHR '' '']"

fun remove_clients :: "manager \<Rightarrow> sock list \<Rightarrow> manager \<times> event list" where
  "remove_clients m [] = (m, [])"
| "remove_clients m (s # ss) =
     (let (m1, r, e1) = remove_client m s;
          (m2, e2) = remove_clients m1 ss
      in (m2, e1 @ e2))"

text \<open>
  The delivery summary \<^verbatim>\<open>_send_to_targets\<close> composes from the two counters: type
  \<^verbatim>\<open>delivery_confirm\<close> when something was sent or nothing failed, else type \<^verbatim>\<open>error\<close>.
\<close>

definition confirm_msg :: "handler \<Rightarrow> string \<Rightarrow> nat \<Rightarrow> nat \<Rightarrow> timestamp \<Rightarrow> system_msg" where
  "confirm_msg h delivery_status sent_count failed_count now =
     (let counts = '' (sent: '' @ str_nat sent_count @ '', failed: '' @ str_nat failed_count @ '')''
      in if sent_count > 0 \<or> failed_count = 0
         then \<lparr>sm_sender = ''SYSTEM'', sm_target = self_username h,
                sm_text = check_mark @ ''Message delivered: '' @ delivery_status @ counts,
                sm_timestamp = now, sm_meeting_id = self_meeting_id h,
                sm_type = ''delivery_confirm''\<rparr>
         else \<lparr>sm_sender = ''SYSTEM'', sm_target = self_username h,
                sm_text = cross_mark @ ''Message delivery failed: '' @ delivery_status @ counts,
                sm_timestamp = now, sm_meeting_id = self_meeting_id h,
                sm_type = ''error''\<rparr>)"

text \<open>
  \<^verbatim>\<open>_send_to_targets(targets, chat_packet, delivery_status)\<close>. \<open>send_ok s\<close> says whether
  \<^verbatim>\<open>sendall\<close> of the chat packet on socket \<open>s\<close> returns (rather than raises). The sockets on
  which it raised are removed through the registry. The second component of the result
  lists, in order, the \<^verbatim>\<open>sendall\<close> calls this method makes itself: the chat packet to each
  target, then the summary to the sender's own socket. The user-list packets that
  \<^verbatim>\<open>remove_client\<close> broadcasts for a removed socket are not in that list: they are the
  events of the third component (\<^verbatim>\<open>broadcast_user_list\<close> is taken to return).
\<close>

definition send_to_targets ::
  "builtins \<Rightarrow> (sock \<Rightarrow> bool) \<Rightarrow> manager \<Rightarrow> handler \<Rightarrow> sock list \<Rightarrow> bytes \<Rightarrow> string \<Rightarrow> timestamp \<Rightarrow>
     manager \<times> (sock \<times> msg) list \<times> event list" where
  "send_to_targets py send_ok m h targets chat_packet delivery_status now =
     (let sent_count = length (filter send_ok targets);
          failed_sockets = filter (\<lambda>s. \<not> send_ok s) targets;
          failed_count = length failed_sockets;
          (m', evs) = remove_clients m failed_sockets
      in (m',
          map (\<lambda>s. (s, Relay chat_packet)) targets @
            send_system py (self_sock h)
              (confirm_msg h delivery_status sent_count failed_count now),
          evs))"

text \<open>
  The case-insensitive lookup table of \<^verbatim>\<open>_handle_chat\<close>: a dictionary comprehension over
  \<^verbatim>\<open>participants.items()\<close>, keyed by the stripped, lower-cased name (a later name with the
  same key replaces the earlier one).
\<close>

definition participants_ci ::
  "builtins \<Rightarrow> (string \<times> sock) list \<Rightarrow> (string \<times> (string \<times> sock)) list" where
  "participants_ci py ps =
     fold (\<lambda>(name, sk). AList.update (lower py (strip py name)) (name, sk)) ps []"

text \<open>
  \<^verbatim>\<open>_handle_chat(payload)\<close>, first part. For a JSON object, \<^verbatim>\<open>sender\<close> and \<^verbatim>\<open>meeting_id\<close>
  are filled in when the key is missing or its value is falsy, the target is
  \<^verbatim>\<open>obj.get('target', 'all')\<close>, the timestamp is overwritten and the object is serialised
  again. A JSON value that is not an object makes the first test or the assignment raise
  \<^verbatim>\<open>TypeError\<close> or \<^verbatim>\<open>AttributeError\<close>, which is not the \<^verbatim>\<open>JSONDecodeError\<close> the inner handler
  catches. A legacy payload is relayed as it is, to \<^verbatim>\<open>'all'\<close>. The result is the payload to
  relay and the target, or \<open>None\<close> when an exception leaves the handler.
\<close>

definition missing :: "(string \<times> json) list \<Rightarrow> string \<Rightarrow> bool" where
  "missing obj k = (case map_of obj k of None \<Rightarrow> True | Some v \<Rightarrow> \<not> json_truthy v)"

definition relay_payload ::
  "builtins \<Rightarrow> handler \<Rightarrow> chat_payload \<Rightarrow> timestamp \<Rightarrow> (bytes \<times> json) option" where
  "relay_payload py h payload now =
     (case payload of
        Json v \<Rightarrow>
          (case v of
             JObj obj0 \<Rightarrow>
               let obj1 = (if missing obj0 ''sender''
                           then AList.update ''sender'' (JStr (self_username h)) obj0 else obj0);
                   obj2 = (if missing obj1 ''meeting_id''
                           then AList.update ''meeting_id'' (JStr (self_meeting_id h)) obj1
                           else obj1);
                   target_username = (case map_of obj2 ''target'' of
                                        None \<Rightarrow> JStr ''all''
                                      | Some t \<Rightarrow> t);
                   obj3 = AList.update ''timestamp'' (JFloat (clock_float now)) obj2
               in Some (json_dumps py (JObj obj3), target_username)
           | _ \<Rightarrow> None)
      | Legacy raw \<Rightarrow> Some (raw, JStr ''all'')
      | LoadsError \<Rightarrow> None)"

text \<open>
  The test \<^verbatim>\<open>target_username and target_username.lower() not in ['all', 'everyone']\<close>
  that sends a message down the unicast branch. A truthy target that is not a string has
  no method \<^verbatim>\<open>lower\<close>: \<^verbatim>\<open>AttributeError\<close>.
\<close>

datatype route = Broadcast | Unicast string | AttributeError

definition route_of :: "builtins \<Rightarrow> json \<Rightarrow> route" where
  "route_of py target_username =
     (if \<not> json_truthy target_username then Broadcast
      else case target_username of
             JStr t \<Rightarrow>
               if lower py t \<in> set [''all'', ''everyone''] then Broadcast else Unicast t
           | _ \<Rightarrow> AttributeError)"

text \<open>The text an f-string puts for the target (the fallback without a server).\<close>

definition format_value :: "builtins \<Rightarrow> json \<Rightarrow> string" where
  "format_value py v = (case v of JStr s \<Rightarrow> s | _ \<Rightarrow> str_format py v)"

text \<open>
  \<^verbatim>\<open>_handle_chat(payload)\<close>. Any exception is caught by the outer handler, which only
  prints: what was sent before stays sent, nothing is sent after. Besides the cases above,
  \<^verbatim>\<open>pack_message\<close> raises \<^verbatim>\<open>ValueError\<close> on a payload longer than 1 MiB, and, on a unicast
  hit, \<^verbatim>\<open>target_sock.getpeername()\<close> in the log line that precedes \<^verbatim>\<open>_send_to_targets\<close>
  raises \<^verbatim>\<open>OSError\<close> on a socket that is closed or no longer connected; \<open>peer_ok sk\<close> says
  that the call returns on \<open>sk\<close>. The second component of the result lists the \<^verbatim>\<open>sendall\<close>
  calls of the handler in order. The environment variable \<^verbatim>\<open>SAPORA_DEBUG\<close> is taken to be
  unset and \<^verbatim>\<open>print\<close> to return; the clock readings of one call are the one value \<open>now\<close>.
\<close>

definition handle_chat ::
  "builtins \<Rightarrow> (sock \<Rightarrow> bool) \<Rightarrow> (sock \<Rightarrow> bool) \<Rightarrow> manager \<Rightarrow> server option \<Rightarrow>
     handler \<Rightarrow> chat_payload \<Rightarrow> timestamp \<Rightarrow> manager \<times> (sock \<times> msg) list \<times> event list" where
  "handle_chat py peer_ok send_ok m srv h payload now =
     (case relay_payload py h payload now of
        None \<Rightarrow> (m, [], [])
      | Some (body, target_username) \<Rightarrow>
         (case pack_message MSG_CHAT body of
            Inl e \<Rightarrow> (m, [], [])
          | Inr chat_packet \<Rightarrow>
             (case srv of
                None \<Rightarrow>
                  send_to_targets py send_ok m h
                    (filter (\<lambda>s. s \<noteq> self_sock h) (map fst (control_clients m)))
                    chat_packet (format_value py target_username) now
              | Some s \<Rightarrow>
                 (case map_of (rooms s) (self_meeting_id h) of
                    None \<Rightarrow>
                      (m, send_system py (self_sock h)
                            \<lparr>sm_sender = ''SYSTEM'', sm_target = self_username h,
                             sm_text = ''Room \"'' @ self_meeting_id h @ ''\" not found'',
                             sm_timestamp = now, sm_meeting_id = self_meeting_id h,
                             sm_type = ''error''\<rparr>, [])
                  | Some rm \<Rightarrow>
                     (case route_of py target_username of
                        AttributeError \<Rightarrow> (m, [], [])
                      | Unicast t \<Rightarrow>
                          (let target_lower = lower py (strip py t)
                           in case map_of (participants_ci py (participants rm)) target_lower of
                                Some (original_name, target_sock) \<Rightarrow>
                                  if peer_ok target_sock then
                                    send_to_targets py send_ok m h [target_sock] chat_packet
                                      (''private to '' @ original_name) now
                                  else (m, [], [])
                              | None \<Rightarrow>
                                  (m, send_system py (self_sock h)
                                        \<lparr>sm_sender = ''SYSTEM'', sm_target = self_username h,
                                         sm_text = ''User \"'' @ t @
                                                   ''\" not found. Available: '' @
                                                   join '', '' (map fst (participants rm)),
                                         sm_timestamp = now, sm_meeting_id = self_meeting_id h,
                                         sm_type = ''error''\<rparr>, []))
                      | Broadcast \<Rightarrow>
                          (let targets = filter (\<lambda>s. s \<noteq> self_sock h) (clients rm)
                           in send_to_targets py send_ok m h targets chat_packet
                                (''broadcast to '' @ str_nat (length targets) @ '' recipients'')
                                now))))))"


subsection \<open>Audio mixer (\<^verbatim>\<open>server/udp_audio_server.py\<close>, \<^verbatim>\<open>server/utils.py\<close>)\<close>









text \<open>
  The stream registry is well formed when its keys are distinct and the audio return
  address stored under an IP has that IP; \<^verbatim>\<open>register_stream\<close> keeps it so.
\<close>

definition stream_wf :: "(string \<times> stream_info) list \<Rightarrow> bool" where
  "stream_wf sc =
     (distinct (map fst sc) \<and>
      list_all (\<lambda>(ip, info). case audio info of None \<Rightarrow> True | Some a \<Rightarrow> fst a = ip) sc)"

subsection \<open>File transfer (\<^verbatim>\<open>server/file_server.py\<close>)\<close>

text \<open>
  Paths. A path is parsed into its components as \<^verbatim>\<open>pathlib\<close> does (empty components and
  \<^verbatim>\<open>.\<close> are dropped); \<^verbatim>\<open>resolve()\<close> makes it absolute against the working directory
  \<open>cwd\<close> and removes \<^verbatim>\<open>..\<close> (symbolic links are not modelled); \<^verbatim>\<open>str\<close> joins the
  components with \<^verbatim>\<open>/\<close>.
\<close>

definition STORAGE_DIR :: string where "STORAGE_DIR = ''sapora_files''"

fun split_slash :: "string \<Rightarrow> string list" where
  "split_slash [] = [[]]"
| "split_slash (c # cs) =
     (if c = CHR ''/'' then [] # split_slash cs
      else case split_slash cs of
             [] \<Rightarrow> [[c]]
           | p # ps \<Rightarrow> (c # p) # ps)"

definition path_parts :: "string \<Rightarrow> string list" where
  "path_parts s = filter (\<lambda>p. p \<noteq> [] \<and> p \<noteq> ''.'') (split_slash s)"

definition is_absolute :: "string \<Rightarrow> bool" where
  "is_absolute s = (case s of [] \<Rightarrow> False | c # cs \<Rightarrow> c = CHR ''/'')"

fun collapse :: "string list \<Rightarrow> string list \<Rightarrow> string list" where
  "collapse acc [] = rev acc"
| "collapse acc (p # ps) =
     (if p = ''..'' then collapse (case acc of [] \<Rightarrow> [] | a # acc' \<Rightarrow> acc') ps
      else collapse (p # acc) ps)"

text \<open>\<^verbatim>\<open>self.storage_dir.resolve()\<close> and \<^verbatim>\<open>(self.storage_dir / filename).resolve()\<close>.\<close>

definition storage_root :: "string list \<Rightarrow> string list" where
  "storage_root cwd = collapse [] (cwd @ path_parts STORAGE_DIR)"

definition resolve_path :: "string list \<Rightarrow> string \<Rightarrow> string list" where
  "resolve_path cwd filename =
     collapse []
       (if is_absolute filename then path_parts filename
        else cwd @ path_parts STORAGE_DIR @ path_parts filename)"

definition path_str :: "string list \<Rightarrow> string" where
  "path_str ps = (if ps = [] then ''/'' else concat (map (\<lambda>p. CHR ''/'' # p) ps))"

definition startswith :: "string \<Rightarrow> string \<Rightarrow> bool" where
  "startswith s pre = (take (length pre) s = pre)"

text \<open>The check both handlers make: \<^verbatim>\<open>str(file_path).startswith(str(storage_dir.resolve()))\<close>.\<close>

definition path_check :: "string list \<Rightarrow> string \<Rightarrow> bool" where
  "path_check cwd filename =
     startswith (path_str (resolve_path cwd filename)) (path_str (storage_root cwd))"

text \<open>A resolved path is under the storage root when the root's components are a prefix of its own.\<close>

definition under_root :: "string list \<Rightarrow> string \<Rightarrow> bool" where
  "under_root cwd filename =
     (take (length (storage_root cwd)) (resolve_path cwd filename) = storage_root cwd)"

text \<open>
  The file system: the content of each regular file, by the string of its resolved path.
  Directories are not in the map. The process is taken to have every right on the files it
  reaches: writing to an open file, closing it and unlinking a regular file succeed.
\<close>

type_synonym fs = "string \<Rightarrow> bytes option"

text \<open>
  \<^verbatim>\<open>Path.resolve()\<close> raises \<^verbatim>\<open>ValueError\<close> on a name with an embedded NUL character. Both
  handlers call it outside any \<^verbatim>\<open>try\<close>, so the exception ends the handler thread's request
  without a reply.
\<close>

definition resolve_raises :: "string \<Rightarrow> bool" where
  "resolve_raises filename = (CHR 0x00 \<in> set filename)"

record file_metadata =
  md_filename :: string
  md_filesize :: int
  md_checksum :: string
  md_target :: string

record notification =
  n_type :: string
  n_filename :: string
  n_sender :: string
  n_size :: int
  n_target :: string
  n_timestamp :: timestamp

text \<open>
  \<^verbatim>\<open>_notify_file_availability(filename, filesize, target_users)\<close>: the notification handed
  to \<^verbatim>\<open>_broadcast_file_notification\<close>, when the manager has a server.
\<close>

definition notify_file_availability ::
  "manager \<Rightarrow> string \<Rightarrow> string \<Rightarrow> int \<Rightarrow> string list \<Rightarrow> timestamp \<Rightarrow> notification option" where
  "notify_file_availability m ip filename filesize target_users now =
     (let sender_username = get_client_username_by_ip m ip;
          notification =
            \<lparr>n_type = ''file_announce'', n_filename = filename, n_sender = sender_username,
             n_size = filesize,
             n_target = (case target_users of [t] \<Rightarrow> t | _ \<Rightarrow> ''all''),
             n_timestamp = now\<rparr>
      in if server_ref m then Some notification else None)"

text \<open>
  What the handler sends on its socket: an acknowledgement (type code and text), the
  metadata of a download (file name, size, checksum, which is \<^verbatim>\<open>None\<close> when the file could
  not be read) or a chunk of the file.
\<close>

datatype reply =
    Ack int string
  | Metadata string int "string option"
  | Chunk bytes

text \<open>\<^verbatim>\<open>str(n)\<close> for an integer, and \<^verbatim>\<open>s.encode('utf-8')\<close>.\<close>

definition str_int :: "int \<Rightarrow> string" where
  "str_int i = (if i < 0 then CHR ''-'' # str_nat (nat (- i)) else str_nat (nat i))"

definition encode_utf8 :: "string \<Rightarrow> bytes" where
  "encode_utf8 s = map (\<lambda>c. of_nat (of_char c)) s"

text \<open>
  The receive loop of an upload. \<open>rx\<close> lists what \<^verbatim>\<open>read_tcp_message\<close> returns, call by
  call: \<open>None\<close> when the connection is lost, else a raw message; when the list is
  exhausted the socket times out. The result is \<open>(bytes_received, bytes written)\<close>.
\<close>

fun receive_chunks :: "int \<Rightarrow> int \<Rightarrow> bytes \<Rightarrow> bytes option list \<Rightarrow> error + (int \<times> bytes)" where
  "receive_chunks filesize bytes_received written [] =
     (if bytes_received < filesize then Inl SocketTimeout else Inr (bytes_received, written))"
| "receive_chunks filesize bytes_received written (r # rx) =
     (if bytes_received < filesize then
        (case r of
           None \<Rightarrow> Inl ConnectionAbortedError
         | Some chunk_raw \<Rightarrow>
             (case unpack_message chunk_raw of
                Inl e \<Rightarrow> Inl e
              | Inr (v, chunk_type, l, sq, chunk_payload) \<Rightarrow>
                  if chunk_type \<noteq> FILE_CHUNK
                  then Inl (ValueError (''Unexpected message type ('' @ str_int chunk_type @
                                        '') during upload''))
                  else receive_chunks filesize (bytes_received + int (length chunk_payload))
                         (written @ chunk_payload) rx))
      else Inr (bytes_received, written))"

text \<open>\<^verbatim>\<open>str(e)\<close> for the exception that ended an upload.\<close>

fun error_text :: "error \<Rightarrow> string" where
  "error_text (ValueError s) = s"
| "error_text StructError = ''struct.error''"
| "error_text ConnectionAbortedError = ''Connection lost during file transfer''"
| "error_text SocketTimeout = ''timed out''"
| "error_text (IOError s) = s"
| "error_text (OSError s) = s"

text \<open>
  The reply of the outer \<^verbatim>\<open>except\<close> of an upload:
  \<^verbatim>\<open>pack_message(FILE_ACK_FAILURE, str(e).encode('utf-8'))\<close> inside its own \<^verbatim>\<open>try\<close>, so
  that a text longer than 1 MiB gives no reply at all.
\<close>

definition failure_reply :: "error \<Rightarrow> reply list" where
  "failure_reply e =
     (case pack_message FILE_ACK_FAILURE (encode_utf8 (error_text e)) of
        Inl x \<Rightarrow> []
      | Inr packet \<Rightarrow> [Ack FILE_ACK_FAILURE (error_text e)])"

record upload_result =
  replies :: "reply list"
  fs_after :: fs
  announced :: "notification option"

text \<open>
  \<^verbatim>\<open>_handle_upload_request(payload)\<close>. \<open>metadata\<close> is the result of
  \<^verbatim>\<open>unpack_file_metadata\<close> with the size converted (\<open>None\<close> when either raises); file name,
  checksum and target are strings. \<open>md5 content\<close> is what \<^verbatim>\<open>_calculate_md5\<close> returns for a
  file with that content: the hexadecimal digest, or \<open>None\<close> when reading the file raises.
  \<open>open_err p\<close> is the exception that \<^verbatim>\<open>open(p, 'wb')\<close> raises (the path names a directory,
  a directory on the way is missing, the name is too long, ...), or \<open>None\<close> when the call
  returns; it then has created the file, or emptied it. \<open>ip\<close> is the peer's IP. Every
  exception from the \<^verbatim>\<open>open\<close> on is answered by the outer \<^verbatim>\<open>except\<close>, which unlinks the file
  if it exists.
\<close>

definition handle_upload_request ::
  "(bytes \<Rightarrow> string option) \<Rightarrow> (string \<Rightarrow> error option) \<Rightarrow> manager \<Rightarrow> string \<Rightarrow> string list \<Rightarrow>
     fs \<Rightarrow> file_metadata option \<Rightarrow> bytes option list \<Rightarrow> timestamp \<Rightarrow> upload_result" where
  "handle_upload_request md5 open_err m ip cwd files metadata rx now =
     (case metadata of
        None \<Rightarrow>
          \<lparr>replies = [Ack FILE_ACK_FAILURE ''Invalid metadata''], fs_after = files, announced = None\<rparr>
      | Some md \<Rightarrow>
          let filename = md_filename md;
              filesize = md_filesize md;
              checksum = md_checksum md;
              target_info = md_target md;
              target_users = (if target_info \<noteq> [] \<and> target_info \<noteq> ''all''
                              then [target_info] else [''all''])
          in if filename = [] \<or> filesize \<le> 0 then
               \<lparr>replies = [Ack FILE_ACK_FAILURE ''Invalid filename or filesize''],
                fs_after = files, announced = None\<rparr>
             else if filesize > MAX_FILE_SIZE then
               \<lparr>replies = [Ack FILE_ACK_FAILURE ''File too large''],
                fs_after = files, announced = None\<rparr>
             else if resolve_raises filename then
               \<lparr>replies = [], fs_after = files, announced = None\<rparr>
             else
               let file_path = path_str (resolve_path cwd filename) in
               if \<not> path_check cwd filename then
                 \<lparr>replies = [Ack FILE_ACK_FAILURE ''Invalid filename''],
                  fs_after = files, announced = None\<rparr>
               else
                 (case open_err file_path of
                    Some e \<Rightarrow>
                      \<lparr>replies = failure_reply e,
                       fs_after = files(file_path := None), announced = None\<rparr>
                  | None \<Rightarrow>
                     (case receive_chunks filesize 0 [] rx of
                        Inl e \<Rightarrow>
                          \<lparr>replies = failure_reply e,
                           fs_after = files(file_path := None), announced = None\<rparr>
                      | Inr (bytes_received, written) \<Rightarrow>
                          if bytes_received \<noteq> filesize then
                            \<lparr>replies = failure_reply
                               (IOError (''Received size mismatch (got '' @ str_int bytes_received @
                                         '', expected '' @ str_int filesize @ '')'')),
                             fs_after = files(file_path := None), announced = None\<rparr>
                          else if checksum \<noteq> [] \<and> md5 written \<noteq> Some checksum then
                            \<lparr>replies = [Ack FILE_ACK_FAILURE ''Checksum mismatch''],
                             fs_after = files(file_path := None), announced = None\<rparr>
                          else
                            \<lparr>replies = [Ack FILE_ACK_SUCCESS ''Upload successful''],
                             fs_after = files(file_path \<mapsto> written),
                             announced = notify_file_availability m ip filename filesize
                                           target_users now\<rparr>)))"

text \<open>\<^verbatim>\<open>f.read(FILE_CHUNK_SIZE)\<close> until the empty read.\<close>

function chunk_list :: "nat \<Rightarrow> bytes \<Rightarrow> bytes list" where
  "chunk_list n xs = (if xs = [] \<or> n = 0 then [] else take n xs # chunk_list n (drop n xs))"
  by pat_completeness auto
termination
  by (relation "measure (\<lambda>(n, xs). length xs)") auto

declare chunk_list.simps [simp del]

text \<open>
  \<^verbatim>\<open>_handle_download_request(payload)\<close>. \<open>request\<close> is the decoded file name (\<open>None\<close> when
  the payload is not UTF-8). The file system is only read.
\<close>

definition handle_download_request ::
  "(bytes \<Rightarrow> string option) \<Rightarrow> string list \<Rightarrow> fs \<Rightarrow> string option \<Rightarrow> reply list" where
  "handle_download_request md5 cwd files request =
     (case request of
        None \<Rightarrow> [Ack FILE_ACK_FAILURE ''Invalid request'']
      | Some filename \<Rightarrow>
          if resolve_raises filename then []
          else
            let file_path = path_str (resolve_path cwd filename) in
            if \<not> path_check cwd filename then [Ack FILE_ACK_FAILURE ''Invalid filename'']
            else case files file_path of
                   None \<Rightarrow> [Ack FILE_ACK_FAILURE ''File not found'']
                 | Some content \<Rightarrow>
                     Metadata filename (int (length content)) (md5 content) #
                     map Chunk (chunk_list FILE_CHUNK_SIZE content))"

section \<open>Properties\<close>

subsection \<open>Wire codec\<close>

lemma length_be_encode [simp]: "length (be_encode k n) = k"
  by (induction k arbitrary: n) auto

lemma be_decode_snoc: "be_decode (bs @ [b]) = be_decode bs * 256 + uint b"
  by (simp add: be_decode_def)

lemma be_decode_encode: "0 \<le> n \<Longrightarrow> be_decode (be_encode k n) = n mod 256 ^ k"
proof (induction k arbitrary: n)
  case 0
  then show ?case by (simp add: be_decode_def)
next
  case (Suc k)
  have "be_decode (be_encode (Suc k) n) = (n div 256) mod 256 ^ k * 256 + n mod 256"
    using Suc by (simp add: be_decode_snoc uint_word_of_int)
  also have "\<dots> = n mod 256 ^ Suc k"
    by (simp add: zmod_zmult2_eq mult.commute)
  finally show ?case .
qed

lemma be_decode_encode_id: "0 \<le> n \<Longrightarrow> n < 256 ^ k \<Longrightarrow> be_decode (be_encode k n) = n"
  by (simp add: be_decode_encode)

lemma struct_pack_header:
  assumes "0 \<le> t" "t \<le> 255" "0 \<le> l" "l < 4294967296"
  shows "struct_pack_BBIHH PROTOCOL_VERSION t l 0 0 =
           Inr (be_encode 1 1 @ be_encode 1 t @ be_encode 4 l @ be_encode 2 0 @ be_encode 2 0)"
  using assms
  by (simp add: struct_pack_BBIHH_def pack_uint_def PROTOCOL_VERSION_def del: be_encode.simps)

lemma struct_unpack_header:
  assumes "0 \<le> t" "t \<le> 255" "0 \<le> l" "l < 4294967296"
  shows "struct_unpack_BBIHH
           (be_encode 1 1 @ be_encode 1 t @ be_encode 4 l @ be_encode 2 0 @ be_encode 2 0) =
         Inr (1, t, l, 0, 0)"
  using assms
  by (simp add: struct_unpack_BBIHH_def be_decode_encode_id del: be_encode.simps)

text \<open>
  C8. For every message type byte \<open>t\<close> and every payload of at most 1 MiB,
  \<^verbatim>\<open>unpack_message(pack_message(t, payload))\<close> returns
  \<open>(PROTOCOL_VERSION, t, len(payload), 0, payload)\<close>; for a payload larger than 1 MiB
  \<^verbatim>\<open>pack_message\<close> raises \<^verbatim>\<open>ValueError\<close>.
\<close>

theorem pack_unpack_roundtrip:
  "(0 \<le> t \<and> t \<le> 255 \<and> length payload \<le> MAX_MESSAGE_SIZE \<longrightarrow>
      (\<exists>data. pack_message t payload = Inr data \<and>
         unpack_message data = Inr (PROTOCOL_VERSION, t, int (length payload), 0, payload))) \<and>
   (length payload > MAX_MESSAGE_SIZE \<longrightarrow>
      pack_message t payload = Inl (ValueError ''Payload size exceeds maximum''))"
proof (intro conjI impI)
  assume a: "0 \<le> t \<and> t \<le> 255 \<and> length payload \<le> MAX_MESSAGE_SIZE"
  let ?l = "int (length payload)"
  let ?h = "be_encode 1 1 @ be_encode 1 t @ be_encode 4 ?l @ be_encode 2 0 @ be_encode 2 0"
  from a have r: "0 \<le> t" "t \<le> 255" "0 \<le> ?l" "?l < 4294967296"
    by (simp_all add: MAX_MESSAGE_SIZE_def)
  have p: "pack_message t payload = Inr (?h @ payload)"
    using a struct_pack_header [OF r] by (simp add: pack_message_def del: be_encode.simps)
  have u: "unpack_message (?h @ payload) =
             Inr (PROTOCOL_VERSION, t, ?l, 0, payload)"
    using struct_unpack_header [OF r]
    by (simp add: unpack_message_def HEADER_SIZE_def PROTOCOL_VERSION_def del: be_encode.simps)
  from p u show "\<exists>data. pack_message t payload = Inr data \<and>
         unpack_message data = Inr (PROTOCOL_VERSION, t, int (length payload), 0, payload)"
    by blast
next
  assume "length payload > MAX_MESSAGE_SIZE"
  then show "pack_message t payload = Inl (ValueError ''Payload size exceeds maximum'')"
    by (simp add: pack_message_def)
qed

theorem pack_unpack_roundtrip_witness:
  "(\<exists>data. pack_message 16 [104, 105] = Inr data \<and>
      unpack_message data = Inr (PROTOCOL_VERSION, 16, 2, 0, [104, 105])) \<and>
   pack_message 16 (replicate 1048577 0) = Inl (ValueError ''Payload size exceeds maximum'')"
  using pack_unpack_roundtrip [of 16 "[104, 105]"]
        pack_unpack_roundtrip [of 16 "replicate 1048577 0"]
  by (simp add: MAX_MESSAGE_SIZE_def)

lemma pack_message_fits:
  assumes "0 \<le> t" "t \<le> 255" "length p \<le> MAX_MESSAGE_SIZE"
  shows "pack_message t p =
           Inr (be_encode 1 1 @ be_encode 1 t @ be_encode 4 (int (length p)) @
                be_encode 2 0 @ be_encode 2 0 @ p)"
proof -
  from assms have r: "0 \<le> t" "t \<le> 255" "0 \<le> int (length p)" "int (length p) < 4294967296"
    by (simp_all add: MAX_MESSAGE_SIZE_def)
  show ?thesis
    using assms(3) struct_pack_header [OF r] by (simp add: pack_message_def del: be_encode.simps)
qed

subsection \<open>Connection registry\<close>

lemma username_by_ip_loop_find:
  "username_by_ip_loop infos ip =
     (case find (\<lambda>info. fst (addr info) = ip \<and> username info \<noteq> ''Unknown'') infos of
        Some info \<Rightarrow> username info
      | None \<Rightarrow> ip)"
  by (induction infos) auto

lemma username_by_ip_loop_unknown:
  "(\<forall>info\<in>set infos. fst (addr info) = ip \<longrightarrow> username info = ''Unknown'') \<Longrightarrow>
   username_by_ip_loop infos ip = ip"
  by (induction infos) auto

lemma username_by_ip_loop_known:
  "(\<exists>info\<in>set infos. fst (addr info) = ip \<and> username info \<noteq> ''Unknown'') \<Longrightarrow>
   username_by_ip_loop infos ip \<noteq> ''Unknown'' \<and>
   (\<exists>info\<in>set infos. fst (addr info) = ip \<and> username info \<noteq> ''Unknown'' \<and>
      username_by_ip_loop infos ip = username info)"
  by (induction infos) auto

text \<open>
  C10. \<^verbatim>\<open>get_client_username_by_ip(ip)\<close> returns the stored username of the first member
  at that IP (in the order of the registry) whose username is not \<^verbatim>\<open>"Unknown"\<close>, and the IP
  string itself when there is no such member. So, when some member at that IP has a known
  username, the result is the stored username of a member at that IP and is not
  \<^verbatim>\<open>"Unknown"\<close>; when no member at that IP has a known username the result is the IP
  string, and then the \<^verbatim>\<open>sender\<close> field of the \<^verbatim>\<open>file_announce\<close> notification built for an
  upload from that IP is the raw IP address. In every case that \<^verbatim>\<open>sender\<close> field is what
  the function returns.
\<close>

theorem get_client_username_by_ip_result:
  "get_client_username_by_ip m ip =
     (case find (\<lambda>info. fst (addr info) = ip \<and> username info \<noteq> ''Unknown'')
             (map snd (control_clients m)) of
        Some info \<Rightarrow> username info
      | None \<Rightarrow> ip) \<and>
   ((\<exists>info\<in>set (map snd (control_clients m)).
        fst (addr info) = ip \<and> username info \<noteq> ''Unknown'') \<longrightarrow>
      get_client_username_by_ip m ip \<noteq> ''Unknown'' \<and>
      (\<exists>info\<in>set (map snd (control_clients m)).
         fst (addr info) = ip \<and> username info \<noteq> ''Unknown'' \<and>
         get_client_username_by_ip m ip = username info)) \<and>
   ((\<forall>info\<in>set (map snd (control_clients m)).
        fst (addr info) = ip \<longrightarrow> username info = ''Unknown'') \<longrightarrow>
      get_client_username_by_ip m ip = ip \<and>
      (server_ref m \<longrightarrow>
         map_option n_sender (notify_file_availability m ip filename filesize target_users now)
           = Some ip)) \<and>
   (server_ref m \<longrightarrow>
      map_option n_sender (notify_file_availability m ip filename filesize target_users now)
        = Some (get_client_username_by_ip m ip))"
proof (intro conjI impI)
  show "get_client_username_by_ip m ip =
     (case find (\<lambda>info. fst (addr info) = ip \<and> username info \<noteq> ''Unknown'')
             (map snd (control_clients m)) of
        Some info \<Rightarrow> username info
      | None \<Rightarrow> ip)"
    unfolding get_client_username_by_ip_def by (rule username_by_ip_loop_find)
next
  assume k: "\<exists>info\<in>set (map snd (control_clients m)).
        fst (addr info) = ip \<and> username info \<noteq> ''Unknown''"
  from username_by_ip_loop_known [OF k]
  show "get_client_username_by_ip m ip \<noteq> ''Unknown''"
    unfolding get_client_username_by_ip_def by (rule conjunct1)
  from username_by_ip_loop_known [OF k]
  show "\<exists>info\<in>set (map snd (control_clients m)).
         fst (addr info) = ip \<and> username info \<noteq> ''Unknown'' \<and>
         get_client_username_by_ip m ip = username info"
    unfolding get_client_username_by_ip_def by (rule conjunct2)
next
  assume u: "\<forall>info\<in>set (map snd (control_clients m)).
        fst (addr info) = ip \<longrightarrow> username info = ''Unknown''"
  from username_by_ip_loop_unknown [OF u]
  show r: "get_client_username_by_ip m ip = ip"
    unfolding get_client_username_by_ip_def .
  assume "server_ref m"
  with r show "map_option n_sender
      (notify_file_availability m ip filename filesize target_users now) = Some ip"
    by (simp add: notify_file_availability_def Let_def)
next
  assume "server_ref m"
  then show "map_option n_sender
      (notify_file_availability m ip filename filesize target_users now)
        = Some (get_client_username_by_ip m ip)"
    by (simp add: notify_file_availability_def Let_def)
qed

theorem get_client_username_by_ip_result_witness:
  "get_client_username_by_ip
     \<lparr>control_clients =
        [(1, \<lparr>addr = (''10.0.0.5'', 40000), username = ''Unknown'', last_seen = 0, room = ''default''\<rparr>),
         (2, \<lparr>addr = (''10.0.0.6'', 40001), username = ''Unknown'', last_seen = 0, room = ''default''\<rparr>),
         (3, \<lparr>addr = (''10.0.0.6'', 40002), username = ''Bob'', last_seen = 0, room = ''team''\<rparr>),
         (4, \<lparr>addr = (''10.0.0.6'', 40003), username = ''Carol'', last_seen = 0, room = ''team''\<rparr>)],
      stream_clients = [], server_ref = True\<rparr> ''10.0.0.5'' = ''10.0.0.5'' \<and>
   map_option n_sender
     (notify_file_availability
        \<lparr>control_clients =
          [(1, \<lparr>addr = (''10.0.0.5'', 40000), username = ''Unknown'', last_seen = 0, room = ''default''\<rparr>),
           (2, \<lparr>addr = (''10.0.0.6'', 40001), username = ''Unknown'', last_seen = 0, room = ''default''\<rparr>),
           (3, \<lparr>addr = (''10.0.0.6'', 40002), username = ''Bob'', last_seen = 0, room = ''team''\<rparr>),
           (4, \<lparr>addr = (''10.0.0.6'', 40003), username = ''Carol'', last_seen = 0, room = ''team''\<rparr>)],
         stream_clients = [], server_ref = True\<rparr> ''10.0.0.5'' ''report.pdf'' 10 [''all''] 7)
     = Some ''10.0.0.5'' \<and>
   get_client_username_by_ip
     \<lparr>control_clients =
        [(1, \<lparr>addr = (''10.0.0.5'', 40000), username = ''Unknown'', last_seen = 0, room = ''default''\<rparr>),
         (2, \<lparr>addr = (''10.0.0.6'', 40001), username = ''Unknown'', last_seen = 0, room = ''default''\<rparr>),
         (3, \<lparr>addr = (''10.0.0.6'', 40002), username = ''Bob'', last_seen = 0, room = ''team''\<rparr>),
         (4, \<lparr>addr = (''10.0.0.6'', 40003), username = ''Carol'', last_seen = 0, room = ''team''\<rparr>)],
      stream_clients = [], server_ref = True\<rparr> ''10.0.0.6'' = ''Bob'' \<and>
   map_option n_sender
     (notify_file_availability
        \<lparr>control_clients =
          [(1, \<lparr>addr = (''10.0.0.5'', 40000), username = ''Unknown'', last_seen = 0, room = ''default''\<rparr>),
           (2, \<lparr>addr = (''10.0.0.6'', 40001), username = ''Unknown'', last_seen = 0, room = ''default''\<rparr>),
           (3, \<lparr>addr = (''10.0.0.6'', 40002), username = ''Bob'', last_seen = 0, room = ''team''\<rparr>),
           (4, \<lparr>addr = (''10.0.0.6'', 40003), username = ''Carol'', last_seen = 0, room = ''team''\<rparr>)],
         stream_clients = [], server_ref = True\<rparr> ''10.0.0.6'' ''report.pdf'' 10 [''all''] 7)
     = Some ''Bob''"
  using get_client_username_by_ip_result
     [of "\<lparr>control_clients =
        [(1, \<lparr>addr = (''10.0.0.5'', 40000), username = ''Unknown'', last_seen = 0, room = ''default''\<rparr>),
         (2, \<lparr>addr = (''10.0.0.6'', 40001), username = ''Unknown'', last_seen = 0, room = ''default''\<rparr>),
         (3, \<lparr>addr = (''10.0.0.6'', 40002), username = ''Bob'', last_seen = 0, room = ''team''\<rparr>),
         (4, \<lparr>addr = (''10.0.0.6'', 40003), username = ''Carol'', last_seen = 0, room = ''team''\<rparr>)],
      stream_clients = [], server_ref = True\<rparr>" "''10.0.0.5''" "''report.pdf''" 10 "[''all'']" 7]
        get_client_username_by_ip_result
     [of "\<lparr>control_clients =
        [(1, \<lparr>addr = (''10.0.0.5'', 40000), username = ''Unknown'', last_seen = 0, room = ''default''\<rparr>),
         (2, \<lparr>addr = (''10.0.0.6'', 40001), username = ''Unknown'', last_seen = 0, room = ''default''\<rparr>),
         (3, \<lparr>addr = (''10.0.0.6'', 40002), username = ''Bob'', last_seen = 0, room = ''team''\<rparr>),
         (4, \<lparr>addr = (''10.0.0.6'', 40003), username = ''Carol'', last_seen = 0, room = ''team''\<rparr>)],
      stream_clients = [], server_ref = True\<rparr>" "''10.0.0.6''" "''report.pdf''" 10 "[''all'']" 7]
  by (simp add: get_client_username_by_ip_def notify_file_availability_def Let_def)

text \<open>
  Removing a socket that is not in the registry leaves the registry alone, triggers no
  broadcast and returns the placeholder pair, provided that no stream is registered under
  the placeholder IP \<^verbatim>\<open>0.0.0.0\<close>.
\<close>

lemma remove_client_absent:
  assumes "map_of (control_clients m) s = None" "map_of (stream_clients m) ''0.0.0.0'' = None"
  shows "remove_client m s = (m, (''Unknown'', (''0.0.0.0'', 0)), [])"
  using assms by (simp add: remove_client_def)

text \<open>
  C9. The claim is that \<^verbatim>\<open>remove_client\<close> with a socket that is not in the registry is a
  no-op on both maps. The placeholder address \<^verbatim>\<open>("0.0.0.0", 0)\<close> it starts from is also
  used for the clean-up of the UDP registrations: when a datagram from source address
  \<^verbatim>\<open>0.0.0.0\<close> has registered a stream, removing an unknown socket deletes that entry of
  the stream map.
\<close>

theorem remove_client_unknown_socket_drops_placeholder_stream:
  "remove_client
     \<lparr>control_clients = [],
      stream_clients =
        [(''0.0.0.0'', \<lparr>video = None, audio = Some (''0.0.0.0'', 68), stream_last_seen = 0\<rparr>)],
      server_ref = True\<rparr> 7
   = (\<lparr>control_clients = [], stream_clients = [], server_ref = True\<rparr>,
      (''Unknown'', (''0.0.0.0'', 0)), [])"
  by (simp add: remove_client_def)

text \<open>
  C7. The claim is that for both \<^verbatim>\<open>update_client_status\<close> and
  \<^verbatim>\<open>update_client_status_by_ip\<close> a room argument \<^verbatim>\<open>"default"\<close> leaves a stored non-default
  room unchanged. \<^verbatim>\<open>update_client_status\<close> has no such guard: it overwrites the room
  \<^verbatim>\<open>"team"\<close> with \<^verbatim>\<open>"default"\<close>.
\<close>

theorem update_client_status_downgrades_room:
  "update_client_status
     \<lparr>control_clients =
        [(1, \<lparr>addr = (''10.0.0.5'', 40000), username = ''Alice'', last_seen = 0, room = ''team''\<rparr>)],
      stream_clients = [], server_ref = True\<rparr>
     1 None (Some ''default'') 5
   = (\<lparr>control_clients =
        [(1, \<lparr>addr = (''10.0.0.5'', 40000), username = ''Alice'', last_seen = 5, room = ''default''\<rparr>)],
      stream_clients = [], server_ref = True\<rparr>,
      True, [BroadcastRoomUserList ''default''])"
  by (simp add: update_client_status_def Let_def)

text \<open>
  The sibling \<^verbatim>\<open>update_client_status_by_ip\<close> does have the guard: with the room argument
  \<^verbatim>\<open>"default"\<close>, every entry keeps its socket, and an entry whose stored room is neither
  \<^verbatim>\<open>"default"\<close> nor empty keeps its room.
\<close>

lemma touch_by_ip_keeps_room:
  "room info \<noteq> ''default'' \<Longrightarrow> room info \<noteq> [] \<Longrightarrow>
   room (touch_by_ip info uname (Some ''default'') now) = room info"
  by (simp add: touch_by_ip_def Let_def)

lemma update_by_ip_loop_keeps_rooms:
  "list_all2 (\<lambda>a b. fst b = fst a \<and>
       (room (snd a) \<noteq> ''default'' \<and> room (snd a) \<noteq> [] \<longrightarrow> room (snd b) = room (snd a)))
     cc (fst (update_by_ip_loop cc ip uname (Some ''default'') now))"
proof (induction cc)
  case Nil
  show ?case by simp
next
  case (Cons a cc)
  obtain s info where a: "a = (s, info)" by (cases a)
  show ?case
  proof (cases "fst (addr info) = ip")
    case True
    then show ?thesis
      by (simp add: a touch_by_ip_keeps_room list.rel_refl)
  next
    case False
    then show ?thesis
      using Cons.IH by (simp add: a split_beta)
  qed
qed

lemma update_client_status_by_ip_keeps_rooms:
  "list_all2 (\<lambda>a b. fst b = fst a \<and>
       (room (snd a) \<noteq> ''default'' \<and> room (snd a) \<noteq> [] \<longrightarrow> room (snd b) = room (snd a)))
     (control_clients m)
     (control_clients (fst (update_client_status_by_ip m ip uname (Some ''default'') now)))"
  using update_by_ip_loop_keeps_rooms [of "control_clients m" ip uname now]
  by (simp add: update_client_status_by_ip_def split_beta)

subsection \<open>Registration and rooms\<close>

text \<open>
  C6. The claim is that no room ever holds two members whose usernames are equal under
  case-insensitive comparison, so that registering \<^verbatim>\<open>"Alice"\<close> and then \<^verbatim>\<open>"alice"\<close> into
  the same room cannot yield two distinct participants. \<^verbatim>\<open>_handle_register\<close> binds the
  name to the socket under its exact spelling (\<^verbatim>\<open>room['participants'][self.username]\<close>);
  the lower-case map that the comment above that line announces is not built. Starting
  from the empty registry and an empty room directory, two connections are accepted and
  register as \<^verbatim>\<open>"Alice"\<close> and \<^verbatim>\<open>"alice"\<close> in room \<^verbatim>\<open>"team"\<close>: the room then has both names,
  which differ in case only, bound to two different sockets.
\<close>

theorem register_alice_then_alice_gives_two_participants:
  "fst (snd (handle_register
     (fst (handle_register
            (fst (add_client (fst (add_client \<lparr>control_clients = [], stream_clients = [], server_ref = True\<rparr>
                                     1 (''10.0.0.5'', 40000) 0))
                             2 (''10.0.0.6'', 40001) 0))
            (Some \<lparr>rooms = [], client_rooms = []\<rparr>)
            \<lparr>self_sock = 1, self_address = (''10.0.0.5'', 40000),
              self_username = ''Unknown'', self_meeting_id = ''default''\<rparr>
            (Some \<lparr>reg_username = Some ''Alice'', reg_meeting_id = Some ''team''\<rparr>) 1))
     (fst (snd (handle_register
            (fst (add_client (fst (add_client \<lparr>control_clients = [], stream_clients = [], server_ref = True\<rparr>
                                     1 (''10.0.0.5'', 40000) 0))
                             2 (''10.0.0.6'', 40001) 0))
            (Some \<lparr>rooms = [], client_rooms = []\<rparr>)
            \<lparr>self_sock = 1, self_address = (''10.0.0.5'', 40000),
              self_username = ''Unknown'', self_meeting_id = ''default''\<rparr>
            (Some \<lparr>reg_username = Some ''Alice'', reg_meeting_id = Some ''team''\<rparr>) 1)))
     \<lparr>self_sock = 2, self_address = (''10.0.0.6'', 40001),
       self_username = ''Unknown'', self_meeting_id = ''default''\<rparr>
     (Some \<lparr>reg_username = Some ''alice'', reg_meeting_id = Some ''team''\<rparr>) 2))
   = Some \<lparr>rooms = [(''team'', \<lparr>clients = [1, 2],
                                   participants = [(''Alice'', 1), (''alice'', 2)]\<rparr>)],
            client_rooms = [(1, ''team''), (2, ''team'')]\<rparr>
   \<and> ascii_lower ''Alice'' = ascii_lower ''alice'' \<and> ''Alice'' \<noteq> ''alice'' \<and> (1::nat) \<noteq> 2"
  by (simp add: handle_register_def add_client_def update_client_status_def set_client_room_def
        Let_def ascii_lower_def ascii_lower_char_def)

subsection \<open>Chat routing\<close>













text \<open>
  A JSON payload that is not an object, and an object whose target is truthy and not a
  string, make the handler raise before anything is sent.
\<close>

lemma handle_chat_not_an_object:
  assumes "\<And>obj. v \<noteq> JObj obj"
  shows "handle_chat py peer_ok send_ok m srv h (Json v) now = (m, [], [])"
proof (cases v)
  case (JObj obj)
  with assms show ?thesis by blast
qed (simp_all add: handle_chat_def relay_payload_def)







subsection \<open>Audio mixer\<close>

lemma control_clients_unregister_stream [simp]:
  "control_clients (unregister_stream m stream_type key now) = control_clients m"
  by (simp add: unregister_stream_def Let_def)








lemma map_fst_map_entry: "map fst (AList.map_entry k f xs) = map fst xs"
  by (induction xs) auto

lemma list_all_map_entry:
  "list_all P xs \<Longrightarrow> (\<And>v. P (k, v) \<Longrightarrow> P (k, f v)) \<Longrightarrow> list_all P (AList.map_entry k f xs)"
  by (induction xs) auto

lemma list_all_update:
  "list_all P xs \<Longrightarrow> P (k, v) \<Longrightarrow> list_all P (AList.update k v xs)"
  by (induction xs) auto

lemma stream_wf_map_entry:
  assumes "stream_wf sc"
  shows "stream_wf (AList.map_entry (fst address) (set_stream stream_type (Some address) now) sc)"
  unfolding stream_wf_def
proof (intro conjI)
  show "distinct (map fst (AList.map_entry (fst address)
                              (set_stream stream_type (Some address) now) sc))"
    using assms by (simp add: map_fst_map_entry stream_wf_def)
  show "list_all (\<lambda>(ip, info). case audio info of None \<Rightarrow> True | Some a \<Rightarrow> fst a = ip)
          (AList.map_entry (fst address) (set_stream stream_type (Some address) now) sc)"
  proof (rule list_all_map_entry)
    show "list_all (\<lambda>(ip, info). case audio info of None \<Rightarrow> True | Some a \<Rightarrow> fst a = ip) sc"
      using assms by (simp add: stream_wf_def)
  next
    fix v :: stream_info
    assume "case (fst address, v) of
              (ip, info) \<Rightarrow> (case audio info of None \<Rightarrow> True | Some a \<Rightarrow> fst a = ip)"
    then show "case (fst address, set_stream stream_type (Some address) now v) of
              (ip, info) \<Rightarrow> (case audio info of None \<Rightarrow> True | Some a \<Rightarrow> fst a = ip)"
      by (simp add: set_stream_def)
  qed
qed

lemma stream_wf_update_fresh:
  assumes "stream_wf sc"
  shows "stream_wf (AList.update k \<lparr>video = None, audio = None, stream_last_seen = now\<rparr> sc)"
  using assms by (simp add: stream_wf_def distinct_update list_all_update)

text \<open>\<^verbatim>\<open>register_stream\<close> keeps the stream registry well formed.\<close>

lemma register_stream_wf:
  "stream_wf (stream_clients m) \<Longrightarrow>
   stream_wf (stream_clients (register_stream m stream_type address now))"
  by (simp add: register_stream_def Let_def stream_wf_map_entry stream_wf_update_fresh)






subsection \<open>File transfer\<close>

lemma unpack_chunk_example:
  "unpack_message [1, 33, 0, 0, 0, 2, 0, 0, 0, 0, 104, 105] = Inr (1, 33, 2, 0, [104, 105])"
  by (simp add: unpack_message_def struct_unpack_BBIHH_def HEADER_SIZE_def PROTOCOL_VERSION_def
        be_decode_def)

lemma receive_chunks_example:
  "receive_chunks 2 0 [] [Some [1, 33, 0, 0, 0, 2, 0, 0, 0, 0, 104, 105]] = Inr (2, [104, 105])"
  by (simp add: unpack_chunk_example FILE_CHUNK_def)

lemma resolve_sibling_example:
  "resolve_path [''srv''] ''../sapora_files.txt'' = [''srv'', ''sapora_files.txt''] \<and>
   storage_root [''srv''] = [''srv'', ''sapora_files'']"
  by (simp add: resolve_path_def storage_root_def is_absolute_def path_parts_def STORAGE_DIR_def)

text \<open>
  When the string-prefix test of the handlers fails, an upload is answered with
  \<^verbatim>\<open>FILE_ACK_FAILURE\<close>, the file system is left as it was and nothing is announced; a
  download is answered with \<^verbatim>\<open>FILE_ACK_FAILURE\<close> (a download only ever reads).
\<close>

lemma upload_rejected_when_check_fails:
  assumes "\<not> resolve_raises (md_filename md)" "\<not> path_check cwd (md_filename md)"
  shows "\<exists>txt. handle_upload_request md5 open_err m ip cwd files (Some md) rx now =
           \<lparr>replies = [Ack FILE_ACK_FAILURE txt], fs_after = files, announced = None\<rparr>"
  using assms by (simp add: handle_upload_request_def Let_def)

lemma download_rejected_when_check_fails:
  assumes "\<not> resolve_raises filename" "\<not> path_check cwd filename"
  shows "handle_download_request md5 cwd files (Some filename) =
           [Ack FILE_ACK_FAILURE ''Invalid filename'']"
  using assms by (simp add: handle_download_request_def Let_def)

text \<open>
  C2. The claim is that a request whose file name resolves to a path outside the storage
  root is answered with \<^verbatim>\<open>FILE_ACK_FAILURE\<close> and touches no file. The handlers compare the
  strings of the two paths with \<^verbatim>\<open>startswith\<close>. With the server running in \<^verbatim>\<open>/srv\<close>, the
  name \<^verbatim>\<open>../sapora_files.txt\<close> resolves to \<^verbatim>\<open>/srv/sapora_files.txt\<close>, which is not under
  \<^verbatim>\<open>/srv/sapora_files\<close> but whose string starts with that of the root: the upload is
  accepted and the file is written outside the storage root.
\<close>

theorem upload_escapes_storage_root:
  "\<not> under_root [''srv''] ''../sapora_files.txt'' \<and>
   path_str (resolve_path [''srv''] ''../sapora_files.txt'') = ''/srv/sapora_files.txt'' \<and>
   path_str (storage_root [''srv'']) = ''/srv/sapora_files'' \<and>
   replies (handle_upload_request (\<lambda>b. Some ''d41d8cd9'') (\<lambda>p. None)
              \<lparr>control_clients = [], stream_clients = [], server_ref = False\<rparr> ''10.0.0.5''
              [''srv''] (\<lambda>p. None)
              (Some \<lparr>md_filename = ''../sapora_files.txt'', md_filesize = 2, md_checksum = [],
                      md_target = ''all''\<rparr>)
              [Some [1, 33, 0, 0, 0, 2, 0, 0, 0, 0, 104, 105]] 0)
     = [Ack FILE_ACK_SUCCESS ''Upload successful''] \<and>
   fs_after (handle_upload_request (\<lambda>b. Some ''d41d8cd9'') (\<lambda>p. None)
              \<lparr>control_clients = [], stream_clients = [], server_ref = False\<rparr> ''10.0.0.5''
              [''srv''] (\<lambda>p. None)
              (Some \<lparr>md_filename = ''../sapora_files.txt'', md_filesize = 2, md_checksum = [],
                      md_target = ''all''\<rparr>)
              [Some [1, 33, 0, 0, 0, 2, 0, 0, 0, 0, 104, 105]] 0)
     ''/srv/sapora_files.txt'' = Some [104, 105]"
  by (simp add: under_root_def resolve_sibling_example path_str_def handle_upload_request_def
        path_check_def startswith_def MAX_FILE_SIZE_def unpack_chunk_example FILE_CHUNK_def
        notify_file_availability_def resolve_raises_def Let_def)

text \<open>The same name on a download: the file outside the storage root is read and sent.\<close>

lemma download_escapes_storage_root:
  "handle_download_request (\<lambda>b. Some ''d41d8cd9'') [''srv'']
     ((\<lambda>p. None)(''/srv/sapora_files.txt'' \<mapsto> [104, 105])) (Some ''../sapora_files.txt'')
   = [Metadata ''../sapora_files.txt'' 2 (Some ''d41d8cd9''), Chunk [104, 105]]"
  by (simp add: handle_download_request_def resolve_sibling_example path_str_def path_check_def
        startswith_def chunk_list.simps FILE_CHUNK_SIZE_def resolve_raises_def Let_def)

text \<open>
  An upload whose file cannot be opened for writing (the name is \<^verbatim>\<open>.\<close>, it names a
  directory, a directory of the name is missing) is never answered with
  \<^verbatim>\<open>FILE_ACK_SUCCESS\<close>, whatever checksum it declared, and announces nothing.
\<close>

lemma failure_reply_cases:
  "failure_reply e = [] \<or> failure_reply e = [Ack FILE_ACK_FAILURE (error_text e)]"
  by (simp add: failure_reply_def split: sum.splits)

lemma upload_fails_when_open_fails:
  assumes "md_filename md \<noteq> []" "0 < md_filesize md" "md_filesize md \<le> MAX_FILE_SIZE"
      and "\<not> resolve_raises (md_filename md)" "path_check cwd (md_filename md)"
      and "open_err (path_str (resolve_path cwd (md_filename md))) = Some e"
  shows "replies (handle_upload_request md5 open_err m ip cwd files (Some md) rx now)
           = failure_reply e \<and>
         announced (handle_upload_request md5 open_err m ip cwd files (Some md) rx now) = None"
  using assms by (simp add: handle_upload_request_def Let_def)

text \<open>
  C3. Take a completed upload: the metadata is valid, the file name resolves, the path
  test passes, the file opens for writing and the chunk stream delivers exactly the
  declared number of bytes, \<open>written\<close>. When a non-empty checksum \<open>H\<close> was declared, the
  reply is \<^verbatim>\<open>FILE_ACK_SUCCESS\<close> if and only if the MD5 digest of the bytes written is \<open>H\<close>;
  then the file holds those bytes. On a mismatch the file is deleted, the reply is
  \<^verbatim>\<open>FILE_ACK_FAILURE\<close> with the text \<^verbatim>\<open>Checksum mismatch\<close>, and no \<^verbatim>\<open>file_announce\<close>
  notification is emitted.
\<close>

theorem upload_checksum_decides_reply:
  assumes name: "md_filename md \<noteq> []"
      and size: "0 < md_filesize md" "md_filesize md \<le> MAX_FILE_SIZE"
      and resolves: "\<not> resolve_raises (md_filename md)"
      and path: "path_check cwd (md_filename md)"
      and opened: "open_err (path_str (resolve_path cwd (md_filename md))) = None"
      and completed: "receive_chunks (md_filesize md) 0 [] rx = Inr (md_filesize md, written)"
      and declared: "md_checksum md \<noteq> []"
  shows "(replies (handle_upload_request md5 open_err m ip cwd files (Some md) rx now)
            = [Ack FILE_ACK_SUCCESS ''Upload successful'']
          \<longleftrightarrow> md5 written = Some (md_checksum md)) \<and>
         (md5 written = Some (md_checksum md) \<longrightarrow>
            fs_after (handle_upload_request md5 open_err m ip cwd files (Some md) rx now)
              (path_str (resolve_path cwd (md_filename md))) = Some written) \<and>
         (md5 written \<noteq> Some (md_checksum md) \<longrightarrow>
            replies (handle_upload_request md5 open_err m ip cwd files (Some md) rx now)
              = [Ack FILE_ACK_FAILURE ''Checksum mismatch''] \<and>
            fs_after (handle_upload_request md5 open_err m ip cwd files (Some md) rx now)
              (path_str (resolve_path cwd (md_filename md))) = None \<and>
            announced (handle_upload_request md5 open_err m ip cwd files (Some md) rx now) = None)"
  using assms
  by (simp add: handle_upload_request_def Let_def FILE_ACK_SUCCESS_def FILE_ACK_FAILURE_def)

theorem upload_checksum_decides_reply_witness:
  "replies (handle_upload_request (\<lambda>b. Some ''d41d8cd9'') (\<lambda>p. None)
              \<lparr>control_clients = [], stream_clients = [], server_ref = True\<rparr> ''10.0.0.5''
              [''srv''] (\<lambda>p. None)
              (Some \<lparr>md_filename = ''report.pdf'', md_filesize = 2, md_checksum = ''d41d8cd9'',
                      md_target = ''all''\<rparr>)
              [Some [1, 33, 0, 0, 0, 2, 0, 0, 0, 0, 104, 105]] 0)
     = [Ack FILE_ACK_SUCCESS ''Upload successful''] \<and>
   replies (handle_upload_request (\<lambda>b. Some ''d41d8cd9'') (\<lambda>p. None)
              \<lparr>control_clients = [], stream_clients = [], server_ref = True\<rparr> ''10.0.0.5''
              [''srv''] (\<lambda>p. None)
              (Some \<lparr>md_filename = ''report.pdf'', md_filesize = 2, md_checksum = ''0cc175b9'',
                      md_target = ''all''\<rparr>)
              [Some [1, 33, 0, 0, 0, 2, 0, 0, 0, 0, 104, 105]] 0)
     = [Ack FILE_ACK_FAILURE ''Checksum mismatch''] \<and>
   fs_after (handle_upload_request (\<lambda>b. Some ''d41d8cd9'') (\<lambda>p. None)
              \<lparr>control_clients = [], stream_clients = [], server_ref = True\<rparr> ''10.0.0.5''
              [''srv''] (\<lambda>p. None)
              (Some \<lparr>md_filename = ''report.pdf'', md_filesize = 2, md_checksum = ''0cc175b9'',
                      md_target = ''all''\<rparr>)
              [Some [1, 33, 0, 0, 0, 2, 0, 0, 0, 0, 104, 105]] 0)
     ''/srv/sapora_files/report.pdf'' = None \<and>
   announced (handle_upload_request (\<lambda>b. Some ''d41d8cd9'') (\<lambda>p. None)
              \<lparr>control_clients = [], stream_clients = [], server_ref = True\<rparr> ''10.0.0.5''
              [''srv''] (\<lambda>p. None)
              (Some \<lparr>md_filename = ''report.pdf'', md_filesize = 2, md_checksum = ''0cc175b9'',
                      md_target = ''all''\<rparr>)
              [Some [1, 33, 0, 0, 0, 2, 0, 0, 0, 0, 104, 105]] 0) = None"
proof -
  have path: "path_check [''srv''] ''report.pdf''"
    and str: "path_str (resolve_path [''srv''] ''report.pdf'') = ''/srv/sapora_files/report.pdf''"
    and res: "\<not> resolve_raises ''report.pdf''"
    by (simp_all add: path_check_def startswith_def path_str_def resolve_path_def storage_root_def
          is_absolute_def path_parts_def STORAGE_DIR_def resolve_raises_def)
  show ?thesis
    using upload_checksum_decides_reply
            [of "\<lparr>md_filename = ''report.pdf'', md_filesize = 2, md_checksum = ''d41d8cd9'',
                   md_target = ''all''\<rparr>" "[''srv'']" "\<lambda>p. None"
                "[Some [1, 33, 0, 0, 0, 2, 0, 0, 0, 0, 104, 105]]" "[104, 105]"
                "\<lambda>b. Some ''d41d8cd9''"
                "\<lparr>control_clients = [], stream_clients = [], server_ref = True\<rparr>"
                "''10.0.0.5''" "\<lambda>p. None" 0]
          upload_checksum_decides_reply
            [of "\<lparr>md_filename = ''report.pdf'', md_filesize = 2, md_checksum = ''0cc175b9'',
                   md_target = ''all''\<rparr>" "[''srv'']" "\<lambda>p. None"
                "[Some [1, 33, 0, 0, 0, 2, 0, 0, 0, 0, 104, 105]]" "[104, 105]"
                "\<lambda>b. Some ''d41d8cd9''"
                "\<lparr>control_clients = [], stream_clients = [], server_ref = True\<rparr>"
                "''10.0.0.5''" "\<lambda>p. None" 0]
    by (simp add: path str res unpack_chunk_example FILE_CHUNK_def MAX_FILE_SIZE_def)
qed

text \<open>
  Two such uploads. The name \<^verbatim>\<open>.\<close> resolves to the storage root itself and passes the path
  test; \<^verbatim>\<open>open\<close> raises on the directory and the reply is \<^verbatim>\<open>FILE_ACK_FAILURE\<close> although the
  declared checksum is the digest of the bytes offered. A name with a NUL character makes
  \<^verbatim>\<open>resolve()\<close> raise: there is no reply.
\<close>

lemma upload_to_directory_example:
  "replies (handle_upload_request (\<lambda>b. Some ''d41d8cd9'')
              (\<lambda>p. if p = ''/srv/sapora_files'' then Some (OSError ''Is a directory'') else None)
              \<lparr>control_clients = [], stream_clients = [], server_ref = True\<rparr> ''10.0.0.5''
              [''srv''] (\<lambda>p. None)
              (Some \<lparr>md_filename = ''.'', md_filesize = 2, md_checksum = ''d41d8cd9'',
                      md_target = ''all''\<rparr>)
              [Some [1, 33, 0, 0, 0, 2, 0, 0, 0, 0, 104, 105]] 0)
     = [Ack FILE_ACK_FAILURE ''Is a directory'']"
proof -
  have "pack_message FILE_ACK_FAILURE (encode_utf8 ''Is a directory'') =
          Inr (be_encode 1 1 @ be_encode 1 FILE_ACK_FAILURE @
               be_encode 4 (int (length (encode_utf8 ''Is a directory''))) @
               be_encode 2 0 @ be_encode 2 0 @ encode_utf8 ''Is a directory'')"
    by (rule pack_message_fits) (simp_all add: FILE_ACK_FAILURE_def MAX_MESSAGE_SIZE_def encode_utf8_def)
  then have "failure_reply (OSError ''Is a directory'') = [Ack FILE_ACK_FAILURE ''Is a directory'']"
    by (simp add: failure_reply_def)
  then show ?thesis
    by (simp add: handle_upload_request_def path_check_def startswith_def path_str_def
          resolve_path_def storage_root_def is_absolute_def path_parts_def STORAGE_DIR_def
          resolve_raises_def MAX_FILE_SIZE_def Let_def)
qed

lemma upload_with_nul_example:
  "replies (handle_upload_request md5 open_err m ip cwd files
              (Some \<lparr>md_filename = [CHR ''a'', CHR 0x00], md_filesize = 2, md_checksum = [],
                      md_target = ''all''\<rparr>) rx now) = []"
  by (simp add: handle_upload_request_def resolve_raises_def MAX_FILE_SIZE_def Let_def)

subsection \<open>The stream registry stays well formed\<close>

text \<open>
  The hypothesis of the mixer theorem holds in every state the registry reaches: the empty
  registry is well formed, and \<^verbatim>\<open>register_stream\<close> (above), \<^verbatim>\<open>unregister_stream\<close> and
  \<^verbatim>\<open>remove_client\<close> keep it so.
\<close>

lemma stream_wf_empty: "stream_wf []"
  by (simp add: stream_wf_def)

lemma stream_wf_unset:
  assumes "stream_wf sc"
  shows "stream_wf (AList.map_entry k (set_stream stream_type None now) sc)"
  unfolding stream_wf_def
proof (intro conjI)
  show "distinct (map fst (AList.map_entry k (set_stream stream_type None now) sc))"
    using assms by (simp add: map_fst_map_entry stream_wf_def)
  show "list_all (\<lambda>(ip, info). case audio info of None \<Rightarrow> True | Some a \<Rightarrow> fst a = ip)
          (AList.map_entry k (set_stream stream_type None now) sc)"
  proof (rule list_all_map_entry)
    show "list_all (\<lambda>(ip, info). case audio info of None \<Rightarrow> True | Some a \<Rightarrow> fst a = ip) sc"
      using assms by (simp add: stream_wf_def)
  next
    fix v :: stream_info
    assume "case (k, v) of
              (ip, info) \<Rightarrow> (case audio info of None \<Rightarrow> True | Some a \<Rightarrow> fst a = ip)"
    then show "case (k, set_stream stream_type None now v) of
              (ip, info) \<Rightarrow> (case audio info of None \<Rightarrow> True | Some a \<Rightarrow> fst a = ip)"
      by (simp add: set_stream_def)
  qed
qed

lemma unregister_stream_wf:
  "stream_wf (stream_clients m) \<Longrightarrow>
   stream_wf (stream_clients (unregister_stream m stream_type key now))"
  by (simp add: unregister_stream_def Let_def stream_wf_unset)

lemma list_all_delete: "list_all P xs \<Longrightarrow> list_all P (AList.delete k xs)"
  by (induction xs) auto

lemma stream_wf_delete: "stream_wf sc \<Longrightarrow> stream_wf (AList.delete k sc)"
  by (simp add: stream_wf_def distinct_delete list_all_delete)

lemma remove_client_wf:
  "stream_wf (stream_clients m) \<Longrightarrow>
   stream_wf (stream_clients (fst (remove_client m client_socket)))"
  by (simp add: remove_client_def Let_def split_beta stream_wf_delete split: option.splits)

end
